theory Spec2Isabelle
  imports Main
begin

section \<open>DOM class lists\<close>

text \<open>
  An element's \<^verbatim>\<open>classList\<close> is a set of class names. \<^verbatim>\<open>add\<close> and \<^verbatim>\<open>remove\<close> are
  insertion and deletion, \<^verbatim>\<open>contains\<close> is membership, and the two-argument
  \<^verbatim>\<open>toggle(name, force)\<close> adds the class when \<open>force\<close> is true and removes it otherwise.
\<close>

type_synonym classList = "string set"

definition classList_add :: "string \<Rightarrow> classList \<Rightarrow> classList" where
  "classList_add c cl = insert c cl"

definition classList_remove :: "string \<Rightarrow> classList \<Rightarrow> classList" where
  "classList_remove c cl = cl - {c}"

definition classList_contains :: "string \<Rightarrow> classList \<Rightarrow> bool" where
  "classList_contains c cl = (c \<in> cl)"

definition classList_toggle :: "string \<Rightarrow> bool \<Rightarrow> classList \<Rightarrow> classList" where
  "classList_toggle c force cl = (if force then classList_add c cl else classList_remove c cl)"

section \<open>Theme toggle (script.js, lines 23-76)\<close>

text \<open>
  The state the theme code reads and writes: the \<^verbatim>\<open>localStorage\<close> key-value store, the
  media query \<^verbatim>\<open>(prefers-color-scheme: light)\<close>, and the class list of \<^verbatim>\<open>document.body\<close>.
  \<open>matchMedia\<close> is \<open>None\<close> when \<^verbatim>\<open>window.matchMedia\<close> is undefined, and \<open>Some b\<close> when the
  query exists and its \<^verbatim>\<open>matches\<close> field is \<open>b\<close>. The store is assumed to exist and to
  accept writes, as the source assumes: it calls \<^verbatim>\<open>localStorage\<close> without a guard.
\<close>

record page =
  localStorage :: "string \<rightharpoonup> string"
  matchMedia :: "bool option"
  body_classList :: classList

definition THEME_KEY :: string where
  "THEME_KEY = ''barbearia-lenhador-theme''"

definition getItem :: "string \<Rightarrow> page \<Rightarrow> string option" where
  "getItem k p = localStorage p k"

definition setItem :: "string \<Rightarrow> string \<Rightarrow> page \<Rightarrow> page" where
  "setItem k v p = p\<lparr>localStorage := (localStorage p)(k \<mapsto> v)\<rparr>"

text \<open>
  JavaScript truthiness of the result of \<^verbatim>\<open>getItem\<close>: \<^verbatim>\<open>null\<close> and the empty string are
  falsy, every other string is truthy.
\<close>

definition truthy :: "string option \<Rightarrow> bool" where
  "truthy v = (case v of None \<Rightarrow> False | Some s \<Rightarrow> s \<noteq> [])"

text \<open>
  Lines 34-37: the fallback of \<^verbatim>\<open>getSavedTheme\<close> when no truthy value is stored.
\<close>

definition systemTheme :: "page \<Rightarrow> string" where
  "systemTheme p =
     (case matchMedia p of
        None \<Rightarrow> ''dark''
      | Some matches \<Rightarrow> if matches then ''light'' else ''dark'')"

definition getSavedTheme :: "page \<Rightarrow> string" where
  "getSavedTheme p =
     (let savedTheme = getItem THEME_KEY p
      in if truthy savedTheme then the savedTheme else systemTheme p)"

definition applyTheme :: "string \<Rightarrow> page \<Rightarrow> page" where
  "applyTheme theme p =
     setItem THEME_KEY theme
       (if theme = ''light''
        then p\<lparr>body_classList := classList_add ''light-mode'' (body_classList p)\<rparr>
        else p\<lparr>body_classList := classList_remove ''light-mode'' (body_classList p)\<rparr>)"

definition toggleTheme :: "page \<Rightarrow> page" where
  "toggleTheme p =
     (let currentTheme =
            (if classList_contains ''light-mode'' (body_classList p) then ''light'' else ''dark'');
          newTheme = (if currentTheme = ''light'' then ''dark'' else ''light'')
      in applyTheme newTheme p)"

text \<open>Line 62: the initialisation that runs once when the script is loaded.\<close>

definition initTheme :: "page \<Rightarrow> page" where
  "initTheme p = applyTheme (getSavedTheme p) p"

text \<open>
  Lines 71-75: the listener of the media query's \<^verbatim>\<open>change\<close> event; \<open>matches\<close> is
  \<^verbatim>\<open>e.matches\<close>.
\<close>

definition schemeChangeListener :: "bool \<Rightarrow> page \<Rightarrow> page" where
  "schemeChangeListener matches p =
     (if \<not> truthy (getItem THEME_KEY p)
      then applyTheme (if matches then ''light'' else ''dark'') p
      else p)"

text \<open>
  The events the theme code reacts to after loading. A click on the theme button runs
  \<^verbatim>\<open>toggleTheme\<close>. A change of the operating system's colour scheme updates the media
  query and then runs the listener, which line 70 registers only when
  \<^verbatim>\<open>window.matchMedia\<close> exists.
\<close>

datatype event = ThemeToggleClick | SchemeChange bool

fun dispatch :: "event \<Rightarrow> page \<Rightarrow> page" where
  "dispatch ThemeToggleClick p = toggleTheme p"
| "dispatch (SchemeChange matches) p =
     (case matchMedia p of
        None \<Rightarrow> p
      | Some _ \<Rightarrow> schemeChangeListener matches (p\<lparr>matchMedia := Some matches\<rparr>))"

fun run :: "event list \<Rightarrow> page \<Rightarrow> page" where
  "run [] p = p"
| "run (e # es) p = run es (dispatch e p)"

section \<open>Open/closed status indicator (script.js, lines 261-310)\<close>

text \<open>
  An entry of the weekly schedule: opening and closing time in minutes since midnight.
\<close>

record interval =
  "open" :: nat
  close :: nat

text \<open>
  Lines 274-282: the object literal \<^verbatim>\<open>schedule\<close>, as the list of its keys and values. A
  value is \<open>None\<close> where the source writes \<^verbatim>\<open>null\<close>. The times are written as products,
  as in the source.
\<close>

definition schedule :: "(nat \<times> interval option) list" where
  "schedule =
     [(0, None),
      (1, None),
      (2, Some \<lparr>open = 9 * 60, close = 19 * 60\<rparr>),
      (3, Some \<lparr>open = 9 * 60, close = 19 * 60\<rparr>),
      (4, Some \<lparr>open = 9 * 60, close = 17 * 60\<rparr>),
      (5, Some \<lparr>open = 9 * 60, close = 19 * 60\<rparr>),
      (6, Some \<lparr>open = 9 * 60, close = 17 * 60\<rparr>)]"

text \<open>
  Line 284: \<^verbatim>\<open>schedule[day]\<close>. The result is \<open>None\<close> for a key the object does not have
  (\<^verbatim>\<open>undefined\<close>), \<open>Some None\<close> for \<^verbatim>\<open>null\<close> and \<open>Some (Some i)\<close> for an interval.
\<close>

definition todaySchedule :: "nat \<Rightarrow> interval option option" where
  "todaySchedule day = map_of schedule day"

text \<open>
  Lines 285-289: the value of \<^verbatim>\<open>isOpen\<close>. Only an interval object is truthy;
  \<^verbatim>\<open>null\<close> and \<^verbatim>\<open>undefined\<close> leave \<^verbatim>\<open>isOpen\<close> at \<^verbatim>\<open>false\<close>.
\<close>

definition isOpen :: "nat \<Rightarrow> nat \<Rightarrow> bool" where
  "isOpen day currentTime =
     (case todaySchedule day of
        Some (Some ts) \<Rightarrow> currentTime \<ge> open ts \<and> currentTime < close ts
      | _ \<Rightarrow> False)"

text \<open>
  Lines 301-302: the array \<^verbatim>\<open>dayMapping\<close> and the lookup \<^verbatim>\<open>dayMapping[day]\<close>, which
  is \<^verbatim>\<open>undefined\<close> (here \<open>None\<close>) beyond the end of the array.
\<close>

definition dayMapping :: "nat list" where
  "dayMapping = [6, 0, 1, 2, 3, 4, 5]"

definition todayIndex :: "nat \<Rightarrow> nat option" where
  "todayIndex day = (if day < length dayMapping then Some (dayMapping ! day) else None)"

text \<open>
  The part of the document the function touches: the first element of class
  \<^verbatim>\<open>status-indicator\<close>, if there is one, with its class list and its text, and the class
  lists of the elements of class \<^verbatim>\<open>hours-item\<close> in document order. The status indicator
  is taken to be an element apart from the rows of the hours list.
\<close>

record element =
  classList :: classList
  textContent :: string

record document =
  statusIndicator :: "element option"
  hoursItems :: "classList list"

text \<open>
  Lines 304-309: the \<^verbatim>\<open>forEach\<close> over the rows; \<open>index\<close> is the index of the first row
  of the list that is still to be visited. The comparison \<^verbatim>\<open>index === todayIndex\<close> is
  false when \<open>todayIndex\<close> is \<^verbatim>\<open>undefined\<close>.
\<close>

fun forEach_hoursItems :: "nat option \<Rightarrow> nat \<Rightarrow> classList list \<Rightarrow> classList list" where
  "forEach_hoursItems tI index [] = []"
| "forEach_hoursItems tI index (item # items) =
     (let item1 = classList_remove ''today'' item;
          item2 = (if Some index = tI then classList_add ''today'' item1 else item1)
      in item2 # forEach_hoursItems tI (Suc index) items)"

text \<open>
  Lines 292-297: the update of the status indicator, skipped when the document has none.
\<close>

definition updateStatusIndicator :: "bool \<Rightarrow> document \<Rightarrow> document" where
  "updateStatusIndicator isOpen_now d =
     (case statusIndicator d of
        None \<Rightarrow> d
      | Some el \<Rightarrow>
          d\<lparr>statusIndicator := Some
              (el\<lparr>classList :=
                     classList_toggle ''closed'' (\<not> isOpen_now)
                       (classList_toggle ''open'' isOpen_now (classList el)),
                   textContent := (if isOpen_now then ''Aberto agora'' else ''Fechado'')\<rparr>)\<rparr>)"

text \<open>
  The whole function. \<open>day\<close>, \<open>hour\<close> and \<open>minute\<close> are what \<^verbatim>\<open>getDay()\<close>,
  \<^verbatim>\<open>getHours()\<close> and \<^verbatim>\<open>getMinutes()\<close> return for the current date.
\<close>

definition updateOpenStatus :: "nat \<Rightarrow> nat \<Rightarrow> nat \<Rightarrow> document \<Rightarrow> document" where
  "updateOpenStatus day hour minute d =
     (let currentTime = hour * 60 + minute;
          d1 = updateStatusIndicator (isOpen day currentTime) d
      in d1\<lparr>hoursItems := forEach_hoursItems (todayIndex day) 0 (hoursItems d1)\<rparr>)"

section \<open>Properties of the theme code\<close>

lemma getItem_setItem [simp]: "getItem k (setItem k v p) = Some v"
  by (simp add: getItem_def setItem_def)

lemma getItem_applyTheme [simp]: "getItem THEME_KEY (applyTheme theme p) = Some theme"
  by (simp add: applyTheme_def)

lemma matchMedia_applyTheme [simp]: "matchMedia (applyTheme theme p) = matchMedia p"
  by (simp add: applyTheme_def setItem_def)

lemma body_classList_applyTheme [simp]:
  "body_classList (applyTheme theme p) =
     (if theme = ''light'' then insert ''light-mode'' (body_classList p)
      else body_classList p - {''light-mode''})"
  by (simp add: applyTheme_def setItem_def classList_add_def classList_remove_def)

text \<open>
  C5: for every state of the media query, \<^verbatim>\<open>applyTheme('light')\<close> followed by
  \<^verbatim>\<open>getSavedTheme()\<close> returns \<^verbatim>\<open>'light'\<close>. The operating system's signal is set to an
  arbitrary value \<open>os\<close> between the write and the read.
\<close>

theorem C5_write_light_then_read:
  "getSavedTheme (applyTheme ''light'' p) = ''light''
   \<and> getSavedTheme ((applyTheme ''light'' p)\<lparr>matchMedia := os\<rparr>) = ''light''"
  by (simp add: getSavedTheme_def truthy_def getItem_def applyTheme_def setItem_def)

text \<open>
  What \<^verbatim>\<open>getSavedTheme\<close> returns is never the empty string, so the value that the
  initialisation stores is truthy. Every later write stores \<^verbatim>\<open>'light'\<close> or \<^verbatim>\<open>'dark'\<close>.
\<close>

lemma getSavedTheme_nonempty: "getSavedTheme p \<noteq> []"
  by (simp add: getSavedTheme_def systemTheme_def truthy_def Let_def
           split: option.splits)

lemma truthy_initTheme: "truthy (getItem THEME_KEY (initTheme p))"
  by (simp add: initTheme_def truthy_def getSavedTheme_nonempty)

lemma truthy_toggleTheme: "truthy (getItem THEME_KEY (toggleTheme p))"
  by (simp add: toggleTheme_def truthy_def Let_def)

lemma truthy_schemeChangeListener:
  "truthy (getItem THEME_KEY (schemeChangeListener matches p))"
  by (simp add: schemeChangeListener_def truthy_def)

lemma getItem_matchMedia_update [simp]:
  "getItem k (p\<lparr>matchMedia := m\<rparr>) = getItem k p"
  by (simp add: getItem_def)

lemma truthy_dispatch:
  "truthy (getItem THEME_KEY p) \<Longrightarrow> truthy (getItem THEME_KEY (dispatch e p))"
  by (cases e) (simp_all add: truthy_toggleTheme truthy_schemeChangeListener
                         split: option.splits)

lemma truthy_run:
  "truthy (getItem THEME_KEY p) \<Longrightarrow> truthy (getItem THEME_KEY (run es p))"
  by (induction es arbitrary: p) (simp_all add: truthy_dispatch)

lemma truthy_run_initTheme: "truthy (getItem THEME_KEY (run es (initTheme p)))"
  by (rule truthy_run) (rule truthy_initTheme)

text \<open>
  Once a truthy value is stored the listener of the colour-scheme change leaves the page as
  it is; in particular it does so after a click on the theme button.
\<close>

lemma schemeChangeListener_stored:
  "truthy (getItem THEME_KEY p) \<Longrightarrow> schemeChangeListener matches p = p"
  by (simp add: schemeChangeListener_def)

lemma schemeChangeListener_after_toggle:
  "schemeChangeListener matches (toggleTheme p) = toggleTheme p"
  by (rule schemeChangeListener_stored) (rule truthy_toggleTheme)

lemma schemeChange_after_init_ignored:
  "body_classList (dispatch (SchemeChange matches) (run es (initTheme p)))
     = body_classList (run es (initTheme p))"
proof -
  let ?q = "run es (initTheme p)"
  have "truthy (getItem THEME_KEY (?q\<lparr>matchMedia := Some matches\<rparr>))"
    using truthy_run_initTheme [of es p] by simp
  then have "schemeChangeListener matches (?q\<lparr>matchMedia := Some matches\<rparr>)
               = ?q\<lparr>matchMedia := Some matches\<rparr>"
    by (rule schemeChangeListener_stored)
  then show ?thesis
    by (simp split: option.splits)
qed

text \<open>
  C6: two calls of \<^verbatim>\<open>toggleTheme\<close> in succession restore the applied preference, that is,
  whether \<^verbatim>\<open>document.body\<close> carries the class \<^verbatim>\<open>light-mode\<close>; the whole class list of the
  body is the one before the two calls.
\<close>

theorem C6_toggle_twice:
  "classList_contains ''light-mode'' (body_classList (toggleTheme (toggleTheme p)))
     = classList_contains ''light-mode'' (body_classList p)
   \<and> body_classList (toggleTheme (toggleTheme p)) = body_classList p"
  by (auto simp add: toggleTheme_def classList_contains_def Let_def)

text \<open>
  The values the script itself stores are \<^verbatim>\<open>'light'\<close> and \<^verbatim>\<open>'dark'\<close>: on a first visit
  the key is absent and the initialisation stores one of the two, and every later write
  stores one of the two or the value read back. So a store that only this script has
  written holds no value, \<^verbatim>\<open>'light'\<close> or \<^verbatim>\<open>'dark'\<close>, before and after every event.
\<close>

lemma preference_initTheme:
  "getItem THEME_KEY p \<in> {None, Some ''light'', Some ''dark''} \<Longrightarrow>
   getItem THEME_KEY (initTheme p) \<in> {Some ''light'', Some ''dark''}"
  by (auto simp add: initTheme_def getSavedTheme_def systemTheme_def truthy_def Let_def
        split: option.splits)

lemma preference_dispatch:
  "getItem THEME_KEY p \<in> {Some ''light'', Some ''dark''} \<Longrightarrow>
   getItem THEME_KEY (dispatch e p) \<in> {Some ''light'', Some ''dark''}"
  by (cases e)
     (auto simp add: toggleTheme_def schemeChangeListener_def truthy_def Let_def
        split: option.splits)

lemma preference_run:
  "getItem THEME_KEY p \<in> {Some ''light'', Some ''dark''} \<Longrightarrow>
   getItem THEME_KEY (run es p) \<in> {Some ''light'', Some ''dark''}"
proof (induction es arbitrary: p)
  case Nil
  then show ?case by simp
next
  case (Cons e es)
  from Cons.prems have "getItem THEME_KEY (dispatch e p) \<in> {Some ''light'', Some ''dark''}"
    by (rule preference_dispatch)
  then show ?case
    using Cons.IH by simp
qed

lemma getSavedTheme_truthy:
  "truthy (getItem THEME_KEY p) \<Longrightarrow> getItem THEME_KEY p = Some (getSavedTheme p)"
  by (auto simp add: getSavedTheme_def truthy_def split: option.splits)

text \<open>
  C7: \<^verbatim>\<open>getSavedTheme\<close> returns the stored preference (\<^verbatim>\<open>'light'\<close> or \<^verbatim>\<open>'dark'\<close>) when
  one is present. When none is stored it returns \<^verbatim>\<open>'light'\<close> if \<^verbatim>\<open>window.matchMedia\<close>
  exists and the query for a light scheme matches, and \<^verbatim>\<open>'dark'\<close> in every other case:
  the query is missing, or it does not match. In every state the script reaches after its
  initialisation a value is stored, and that value is what \<^verbatim>\<open>getSavedTheme\<close> returns.
\<close>

theorem C7_getSavedTheme_cases:
  "(getItem THEME_KEY p = Some v \<and> (v = ''light'' \<or> v = ''dark'') \<longrightarrow> getSavedTheme p = v)
   \<and> (getItem THEME_KEY p = None \<and> matchMedia p = Some True \<longrightarrow> getSavedTheme p = ''light'')
   \<and> (getItem THEME_KEY p = None \<and> matchMedia p \<noteq> Some True \<longrightarrow> getSavedTheme p = ''dark'')
   \<and> getItem THEME_KEY (run es (initTheme q)) = Some (getSavedTheme (run es (initTheme q)))"
proof -
  have stored: "getItem THEME_KEY p = Some v \<and> (v = ''light'' \<or> v = ''dark'')
                  \<longrightarrow> getSavedTheme p = v"
    by (auto simp add: getSavedTheme_def truthy_def)
  have light: "getItem THEME_KEY p = None \<and> matchMedia p = Some True
                  \<longrightarrow> getSavedTheme p = ''light''"
    by (simp add: getSavedTheme_def truthy_def systemTheme_def)
  have dark: "getItem THEME_KEY p = None \<and> matchMedia p \<noteq> Some True
                  \<longrightarrow> getSavedTheme p = ''dark''"
    by (auto simp add: getSavedTheme_def truthy_def systemTheme_def split: option.splits)
  have reached: "getItem THEME_KEY (run es (initTheme q))
                   = Some (getSavedTheme (run es (initTheme q)))"
    by (rule getSavedTheme_truthy) (rule truthy_run_initTheme)
  from stored light dark reached show ?thesis by blast
qed

theorem C7_getSavedTheme_cases_witness:
  "getSavedTheme
     \<lparr>localStorage = [THEME_KEY \<mapsto> ''dark''], matchMedia = Some True, body_classList = {}\<rparr>
     = ''dark''
   \<and> getSavedTheme
     \<lparr>localStorage = Map.empty, matchMedia = Some True, body_classList = {}\<rparr> = ''light''
   \<and> getSavedTheme
     \<lparr>localStorage = Map.empty, matchMedia = None, body_classList = {}\<rparr> = ''dark''
   \<and> getSavedTheme
     \<lparr>localStorage = Map.empty, matchMedia = Some False, body_classList = {}\<rparr> = ''dark''"
proof -
  let ?p1 = "\<lparr>localStorage = [THEME_KEY \<mapsto> ''dark''], matchMedia = Some True,
              body_classList = {}\<rparr>"
  let ?p2 = "\<lparr>localStorage = Map.empty, matchMedia = Some True, body_classList = {}\<rparr>"
  let ?p3 = "\<lparr>localStorage = Map.empty, matchMedia = None, body_classList = {}\<rparr>"
  let ?p4 = "\<lparr>localStorage = Map.empty, matchMedia = Some False, body_classList = {}\<rparr>"
  have s1: "getItem THEME_KEY ?p1 = Some ''dark''"
    by (simp add: getItem_def)
  have s2: "getItem THEME_KEY ?p2 = None" and s3: "getItem THEME_KEY ?p3 = None"
    and s4: "getItem THEME_KEY ?p4 = None"
    by (simp_all add: getItem_def)
  have m2: "matchMedia ?p2 = Some True" and m3: "matchMedia ?p3 \<noteq> Some True"
    and m4: "matchMedia ?p4 \<noteq> Some True"
    by simp_all
  have "getSavedTheme ?p1 = ''dark''"
    using C7_getSavedTheme_cases [of ?p1 "''dark''"] s1 by blast
  moreover have "getSavedTheme ?p2 = ''light''"
    using C7_getSavedTheme_cases [of ?p2] s2 m2 by blast
  moreover have "getSavedTheme ?p3 = ''dark''"
    using C7_getSavedTheme_cases [of ?p3] s3 m3 by blast
  moreover have "getSavedTheme ?p4 = ''dark''"
    using C7_getSavedTheme_cases [of ?p4] s4 m4 by blast
  ultimately show ?thesis by blast
qed

text \<open>
  C10: every call of \<^verbatim>\<open>applyTheme\<close> stores its argument under the key, the initialisation
  at page load included, which stores what \<^verbatim>\<open>getSavedTheme\<close> returned. So after the
  initialisation the key is present, and it stays present through every sequence of clicks
  on the theme button and colour-scheme changes, whether or not the user ever chose a theme.
\<close>

theorem C10_key_present_after_init:
  "getItem THEME_KEY (applyTheme theme p) = Some theme
   \<and> getItem THEME_KEY (initTheme p) = Some (getSavedTheme p)
   \<and> getItem THEME_KEY (run es (initTheme p)) \<noteq> None"
proof -
  have "getItem THEME_KEY (run es (initTheme p)) \<noteq> None"
    using truthy_run_initTheme [of es p] by (auto simp add: truthy_def split: option.splits)
  then show ?thesis
    by (simp add: initTheme_def)
qed

text \<open>
  C2 says that while the user has never chosen a theme, every change of the operating
  system's colour scheme is applied. The code does not do so. On a first visit (nothing
  stored) with a dark system scheme, the initialisation itself stores \<^verbatim>\<open>'dark'\<close>; when the
  system then switches to light, the listener finds a stored value and returns without
  applying the light theme.
\<close>

theorem C2_scheme_change_after_load_not_applied:
  "\<not> classList_contains ''light-mode''
       (body_classList
          (run [SchemeChange True]
             (initTheme \<lparr>localStorage = Map.empty, matchMedia = Some False,
                         body_classList = {}\<rparr>)))
   \<and> getItem THEME_KEY
       (run [SchemeChange True]
          (initTheme \<lparr>localStorage = Map.empty, matchMedia = Some False,
                      body_classList = {}\<rparr>)) = Some ''dark''
   \<and> matchMedia
       (run [SchemeChange True]
          (initTheme \<lparr>localStorage = Map.empty, matchMedia = Some False,
                      body_classList = {}\<rparr>)) = Some True"
  by (simp add: initTheme_def getSavedTheme_def systemTheme_def truthy_def getItem_def
        applyTheme_def setItem_def schemeChangeListener_def classList_contains_def
        classList_remove_def)

section \<open>Properties of the status indicator code\<close>

subsection \<open>The schedule and the value of isOpen\<close>

lemma interval_nonempty:
  "todaySchedule day = Some (Some ts) \<Longrightarrow> open ts < close ts"
  unfolding todaySchedule_def
  by (drule map_of_SomeD) (auto simp add: schedule_def)

lemma isOpen_examples:
  "isOpen 4 (16 * 60 + 59)" "\<not> isOpen 4 (17 * 60)"
  "isOpen 2 (9 * 60)" "\<not> isOpen 2 (8 * 60 + 59)"
  "isOpen 2 (18 * 60 + 59)" "\<not> isOpen 2 (19 * 60)"
  by (simp_all add: isOpen_def todaySchedule_def schedule_def)

text \<open>
  C1: for every weekday and every time in minutes since midnight, \<^verbatim>\<open>isOpen\<close> is true
  exactly when the schedule has an interval for the day (not \<^verbatim>\<open>null\<close>) and
  \<open>open \<le> now < close\<close>. At \<open>now = open\<close> the result is open, at \<open>now = close\<close> it is
  closed. Nothing is assumed of the day or the time, so the days 0 to 6 and the times 0 to
  1439 are covered.
\<close>

theorem C1_isOpen_iff:
  "(isOpen day now \<longleftrightarrow>
      (\<exists>ts. todaySchedule day = Some (Some ts) \<and> open ts \<le> now \<and> now < close ts))
   \<and> (todaySchedule day = Some (Some ts) \<longrightarrow>
        isOpen day (open ts) \<and> \<not> isOpen day (close ts))"
  using interval_nonempty [of day ts]
  by (auto simp add: isOpen_def split: option.splits)

theorem C1_isOpen_iff_witness:
  "todaySchedule 4 = Some (Some \<lparr>open = 540, close = 1020\<rparr>)
   \<and> isOpen 4 540 \<and> \<not> isOpen 4 1020 \<and> isOpen 4 1019"
proof -
  have h: "todaySchedule 4 = Some (Some \<lparr>open = 540, close = 1020\<rparr>)"
    by (simp add: todaySchedule_def schedule_def)
  from C1_isOpen_iff [of 4 1019 "\<lparr>open = 540, close = 1020\<rparr>"] h
  show ?thesis by simp
qed

text \<open>
  C3: the table. Sunday (0) and Monday (1) are \<^verbatim>\<open>null\<close>; Tuesday (2), Wednesday (3) and
  Friday (5) are 540 to 1140; Thursday (4) and Saturday (6) are 540 to 1020. On the days 0
  and 1, \<^verbatim>\<open>isOpen\<close> is false at every time.
\<close>

theorem C3_schedule_table:
  "todaySchedule 0 = Some None
   \<and> todaySchedule 1 = Some None
   \<and> todaySchedule 2 = Some (Some \<lparr>open = 540, close = 1140\<rparr>)
   \<and> todaySchedule 3 = Some (Some \<lparr>open = 540, close = 1140\<rparr>)
   \<and> todaySchedule 4 = Some (Some \<lparr>open = 540, close = 1020\<rparr>)
   \<and> todaySchedule 5 = Some (Some \<lparr>open = 540, close = 1140\<rparr>)
   \<and> todaySchedule 6 = Some (Some \<lparr>open = 540, close = 1020\<rparr>)
   \<and> \<not> isOpen 0 now \<and> \<not> isOpen 1 now"
  by (simp add: todaySchedule_def schedule_def isOpen_def)

subsection \<open>The index of today's row\<close>

lemma todayIndex_formula: "day \<le> 6 \<Longrightarrow> todayIndex day = Some ((day + 6) mod 7)"
proof -
  assume "day \<le> 6"
  then have "day = 0 \<or> day = 1 \<or> day = 2 \<or> day = 3 \<or> day = 4 \<or> day = 5 \<or> day = 6"
    by arith
  then show ?thesis
    by (auto simp add: todayIndex_def dayMapping_def)
qed

lemma shift_bij: "bij_betw (\<lambda>d::nat. (d + 6) mod 7) {0..6} {0..6}"
  by (rule bij_betw_byWitness [where f' = "\<lambda>i. (i + 1) mod 7"]) (auto, presburger+)

text \<open>
  C4: for every weekday from 0 to 6 the lookup in \<^verbatim>\<open>dayMapping\<close> gives
  \<open>(weekday + 6) mod 7\<close>; the lookup is a bijection from \<open>{0..6}\<close> to \<open>{0..6}\<close>; Monday (1)
  is mapped to 0 and Sunday (0) to 6.
\<close>

theorem C4_dayMapping_formula:
  "(day \<le> 6 \<longrightarrow> todayIndex day = Some ((day + 6) mod 7))
   \<and> bij_betw (\<lambda>d. the (todayIndex d)) {0..6} {0..6}
   \<and> todayIndex 1 = Some 0 \<and> todayIndex 0 = Some 6"
proof -
  have "bij_betw (\<lambda>d. the (todayIndex d)) {0..6} {0..6}"
    using shift_bij by (rule bij_betw_cong [THEN iffD2, rotated]) (simp add: todayIndex_formula)
  then show ?thesis
    by (simp add: todayIndex_formula)
qed

theorem C4_dayMapping_formula_witness:
  "(3::nat) \<le> 6 \<and> todayIndex 3 = Some 2"
  using C4_dayMapping_formula [of 3] by simp

subsection \<open>The rows of the hours list\<close>

lemma length_forEach_hoursItems [simp]:
  "length (forEach_hoursItems tI index items) = length items"
  by (induction items arbitrary: index) (simp_all add: Let_def)

lemma nth_forEach_hoursItems:
  "i < length items \<Longrightarrow>
   forEach_hoursItems tI index items ! i =
     (if Some (index + i) = tI then insert ''today'' (items ! i - {''today''})
      else items ! i - {''today''})"
proof (induction items arbitrary: index i)
  case Nil
  then show ?case by simp
next
  case (Cons item items)
  show ?case
  proof (cases i)
    case 0
    then show ?thesis
      by (simp add: Let_def classList_add_def classList_remove_def)
  next
    case (Suc j)
    with Cons.prems have "j < length items" by simp
    from Cons.IH [OF this, of "Suc index"] Suc show ?thesis
      by (simp add: Let_def)
  qed
qed

lemma today_forEach_hoursItems:
  "i < length items \<Longrightarrow>
   (''today'' \<in> forEach_hoursItems tI index items ! i) = (Some (index + i) = tI)"
  by (simp add: nth_forEach_hoursItems)

lemma count_today_forEach_hoursItems:
  "length (filter (\<lambda>item. ''today'' \<in> item) (forEach_hoursItems tI index items)) =
     (case tI of
        None \<Rightarrow> 0
      | Some t \<Rightarrow> if index \<le> t \<and> t < index + length items then 1 else 0)"
  by (induction items arbitrary: index)
     (auto simp add: Let_def classList_add_def classList_remove_def split: option.splits)

lemma forEach_hoursItems_idem:
  "forEach_hoursItems tI index (forEach_hoursItems tI index items)
     = forEach_hoursItems tI index items"
  by (induction items arbitrary: index)
     (auto simp add: Let_def classList_add_def classList_remove_def)

lemma hoursItems_updateStatusIndicator [simp]:
  "hoursItems (updateStatusIndicator b d) = hoursItems d"
  by (simp add: updateStatusIndicator_def split: option.splits)

lemma hoursItems_updateOpenStatus:
  "hoursItems (updateOpenStatus day hour minute d)
     = forEach_hoursItems (todayIndex day) 0 (hoursItems d)"
  by (simp add: updateOpenStatus_def Let_def)

text \<open>
  The text of the status indicator shows the value of \<^verbatim>\<open>isOpen\<close> at
  \<open>hour * 60 + minute\<close>.
\<close>

lemma statusIndicator_updateOpenStatus:
  "statusIndicator d = Some el \<Longrightarrow>
   map_option textContent (statusIndicator (updateOpenStatus day hour minute d))
     = Some (if isOpen day (hour * 60 + minute) then ''Aberto agora'' else ''Fechado'')"
  by (simp add: updateOpenStatus_def updateStatusIndicator_def Let_def)

text \<open>
  C8: after \<^verbatim>\<open>updateOpenStatus\<close> has run on a document whose hours list has seven rows,
  on a weekday from 0 to 6, there are still seven rows, row \<open>i\<close> carries the class
  \<^verbatim>\<open>today\<close> exactly when \<open>i\<close> is the display index of the weekday, and the number of rows
  that carry it is one, whichever rows carried it before.
\<close>

theorem C8_exactly_one_today:
  assumes "length (hoursItems d) = 7" and "day \<le> 6" and "i < 7"
  shows "length (hoursItems (updateOpenStatus day hour minute d)) = 7
    \<and> classList_contains ''today'' (hoursItems (updateOpenStatus day hour minute d) ! i)
        = (Some i = todayIndex day)
    \<and> length (filter (classList_contains ''today'')
                (hoursItems (updateOpenStatus day hour minute d))) = 1"
proof -
  let ?rows = "hoursItems (updateOpenStatus day hour minute d)"
  have len: "length ?rows = 7"
    using assms(1) by (simp add: hoursItems_updateOpenStatus)
  have mark: "classList_contains ''today'' (?rows ! i) = (Some i = todayIndex day)"
    using assms(1,3) today_forEach_hoursItems [of i "hoursItems d" "todayIndex day" 0]
    by (simp add: hoursItems_updateOpenStatus classList_contains_def)
  have "(day + 6) mod 7 < 7" by simp
  then have one: "length (filter (classList_contains ''today'') ?rows) = 1"
    using assms(1,2)
      count_today_forEach_hoursItems [of "todayIndex day" 0 "hoursItems d"]
    by (simp add: hoursItems_updateOpenStatus todayIndex_formula classList_contains_def [abs_def])
  from len mark one show ?thesis by blast
qed

theorem C8_exactly_one_today_witness:
  "length (hoursItems \<lparr>statusIndicator = None,
             hoursItems = [{''today''}, {}, {''today''}, {}, {}, {}, {}]\<rparr>) = 7
   \<and> (0::nat) \<le> 6 \<and> (6::nat) < 7
   \<and> classList_contains ''today''
       (hoursItems (updateOpenStatus 0 10 30 \<lparr>statusIndicator = None,
          hoursItems = [{''today''}, {}, {''today''}, {}, {}, {}, {}]\<rparr>) ! 6)
   \<and> length (filter (classList_contains ''today'')
       (hoursItems (updateOpenStatus 0 10 30 \<lparr>statusIndicator = None,
          hoursItems = [{''today''}, {}, {''today''}, {}, {}, {}, {}]\<rparr>))) = 1"
proof -
  let ?d = "\<lparr>statusIndicator = None,
             hoursItems = [{''today''}, {}, {''today''}, {}, {}, {}, {}]\<rparr>"
  have len: "length (hoursItems ?d) = 7" by simp
  have idx: "Some 6 = todayIndex 0" by (simp add: todayIndex_def dayMapping_def)
  from C8_exactly_one_today [OF len, of 0 6 10 30] idx len
  show ?thesis by simp
qed

subsection \<open>Running the function again\<close>

lemma classList_toggle_open_closed_idem:
  "classList_toggle ''closed'' (\<not> b) (classList_toggle ''open'' b
     (classList_toggle ''closed'' (\<not> b) (classList_toggle ''open'' b cl)))
   = classList_toggle ''closed'' (\<not> b) (classList_toggle ''open'' b cl)"
  by (auto simp add: classList_toggle_def classList_add_def classList_remove_def)

lemma updateStatusIndicator_idem:
  "updateStatusIndicator b (updateStatusIndicator b d) = updateStatusIndicator b d"
  by (simp add: updateStatusIndicator_def
        classList_toggle_open_closed_idem [of True, simplified]
        classList_toggle_open_closed_idem [of False, simplified]
        split: option.splits)

lemma updateStatusIndicator_hoursItems_update:
  "updateStatusIndicator b (d\<lparr>hoursItems := hs\<rparr>) = (updateStatusIndicator b d)\<lparr>hoursItems := hs\<rparr>"
  by (simp add: updateStatusIndicator_def split: option.splits)

text \<open>
  C9: for a fixed weekday and time of day, running \<^verbatim>\<open>updateOpenStatus\<close> a second time
  changes nothing: the status indicator (its classes and its text) and the class lists of
  the rows are the ones the first run left.
\<close>

theorem C9_updateOpenStatus_idempotent:
  "updateOpenStatus day hour minute (updateOpenStatus day hour minute d)
     = updateOpenStatus day hour minute d"
  by (simp add: updateOpenStatus_def Let_def updateStatusIndicator_hoursItems_update
        updateStatusIndicator_idem forEach_hoursItems_idem)

end
